theory Spec2Isabelle
  imports Main "HOL-Library.Word"
begin

section \<open>Python values\<close>

subsection \<open>Strings\<close>

text \<open>
  A Python \<open>str\<close> is a sequence of Unicode code points, and \<open>len\<close> counts code
  points. A code point is a natural number here, so that the truncation marker
  U+2026 is one character, as it is for the script.
\<close>

type_synonym pystr = "nat list"

definition ustr :: "string \<Rightarrow> pystr" where
  "ustr s = map of_char s"

abbreviation nl :: nat where
  "nl \<equiv> 10"

text \<open>The character \<open>\<dots>\<close> (U+2026) that \<open>_truncate\<close> appends.\<close>

abbreviation ellipsis :: nat where
  "ellipsis \<equiv> 8230"

text \<open>
  \<open>str.strip()\<close> without argument removes the characters for which \<open>str.isspace\<close>
  holds: U+0009..U+000D, U+001C..U+0020, U+0085, U+00A0, U+1680, U+2000..U+200A,
  U+2028, U+2029, U+202F, U+205F and U+3000.
\<close>

definition isspace :: "nat \<Rightarrow> bool" where
  "isspace c = (c \<in> {9, 10, 11, 12, 13, 28, 29, 30, 31, 32, 133, 160, 5760,
                      8192, 8193, 8194, 8195, 8196, 8197, 8198, 8199, 8200, 8201, 8202,
                      8232, 8233, 8239, 8287, 12288})"

definition strip :: "pystr \<Rightarrow> pystr" where
  "strip s = rev (dropWhile isspace (rev (dropWhile isspace s)))"

text \<open>\<open>s.rstrip("\n")\<close>\<close>

definition rstrip_nl :: "pystr \<Rightarrow> pystr" where
  "rstrip_nl s = rev (dropWhile (\<lambda>c. c = nl) (rev s))"

text \<open>
  The slice \<open>s[:k]\<close> for an integer \<open>k\<close>: a negative \<open>k\<close> counts from the end
  of the string, and the bounds are clipped to the string.
\<close>

definition slice_to :: "pystr \<Rightarrow> int \<Rightarrow> pystr" where
  "slice_to s k = (if 0 \<le> k then take (nat k) s else take (nat (int (length s) + k)) s)"

subsection \<open>Decoded JSON\<close>

text \<open>
  What \<open>json.loads\<close> returns: \<open>None\<close>, a \<open>bool\<close>, an \<open>int\<close>, a \<open>float\<close> (its
  IEEE-754 binary64 bit pattern), a \<open>str\<close>, a \<open>list\<close> or a \<open>dict\<close> with string keys
  (its items, in order).
\<close>

datatype json =
    JNull
  | JBool bool
  | JInt int
  | JFloat "64 word"
  | JStr pystr
  | JArr "json list"
  | JObj "(pystr \<times> json) list"

text \<open>Python's truth value of an object, \<open>bool(v)\<close>. A float is false when it is \<open>\<plusminus>0.0\<close>.\<close>

fun truthy :: "json \<Rightarrow> bool" where
  "truthy JNull = False"
| "truthy (JBool b) = b"
| "truthy (JInt i) = (i \<noteq> 0)"
| "truthy (JFloat w) = (push_bit 1 w \<noteq> 0)"
| "truthy (JStr s) = (s \<noteq> [])"
| "truthy (JArr xs) = (xs \<noteq> [])"
| "truthy (JObj d) = (d \<noteq> [])"

text \<open>\<open>a or b\<close>\<close>

definition py_or :: "json \<Rightarrow> json \<Rightarrow> json" where
  "py_or a b = (if truthy a then a else b)"

text \<open>\<open>d.get(k)\<close> on a \<open>dict\<close>: the value, or \<open>None\<close> when the key is missing.\<close>

definition dict_get :: "(pystr \<times> json) list \<Rightarrow> pystr \<Rightarrow> json" where
  "dict_get d k = (case map_of d k of None \<Rightarrow> JNull | Some v \<Rightarrow> v)"

subsection \<open>The library functions the script calls\<close>

text \<open>
  \<open>json.loads\<close>, \<open>json.dumps\<close>, \<open>repr\<close>, \<open>str\<close> and \<open>int\<close> belong to the Python
  library, not to the script. They are parameters of the model:
  \<^item> \<open>json_loads\<close>: the decoded value, or \<open>None\<close> when decoding raises;
  \<^item> \<open>json_dumps\<close>: \<open>json.dumps(v, ensure_ascii=False, separators=(",", ":"))\<close>, or
    \<open>None\<close> when it raises;
  \<^item> \<open>py_repr\<close>: \<open>repr(v)\<close>;
  \<^item> \<open>py_str\<close>: \<open>str(v)\<close> for a value that is not a \<open>str\<close>;
  \<^item> \<open>py_int\<close>: \<open>int(s)\<close> for a string, or \<open>None\<close> when it raises \<open>ValueError\<close>.
\<close>

record runtime =
  json_loads :: "pystr \<Rightarrow> json option"
  json_dumps :: "json \<Rightarrow> pystr option"
  py_repr :: "json \<Rightarrow> pystr"
  py_str :: "json \<Rightarrow> pystr"
  py_int :: "pystr \<Rightarrow> int option"

text \<open>\<open>str(v)\<close>: a \<open>str\<close> is returned as it is.\<close>

definition str_of :: "runtime \<Rightarrow> json \<Rightarrow> pystr" where
  "str_of rt v = (case v of JStr s \<Rightarrow> s | _ \<Rightarrow> py_str rt v)"

datatype exn = ValueError | AttributeError | TypeError

section \<open>The script\<close>

text \<open>
  Standard output is the text written to it. An operation returns the text it writes
  together with its result.
\<close>

text \<open>\<open>_println(s)\<close> writes \<open>s\<close> and a newline.\<close>

definition println :: "pystr \<Rightarrow> pystr" where
  "println s = s @ [nl]"

text \<open>\<open>_truncate\<close> (the record package already uses the name \<open>truncate\<close>).\<close>

definition truncate_str :: "pystr \<Rightarrow> int \<Rightarrow> pystr" where
  "truncate_str s n = (if int (length s) \<le> n then s else slice_to s (n - 1) @ [ellipsis])"

definition json_compact :: "runtime \<Rightarrow> json \<Rightarrow> int \<Rightarrow> pystr" where
  "json_compact rt v max_len =
     (let s = (case json_dumps rt v of Some s \<Rightarrow> s | None \<Rightarrow> py_repr rt v)
      in truncate_str s max_len)"

subsection \<open>Printer\<close>

record printer =
  buf :: pystr
  tool_input_max :: int

text \<open>
  \<open>Printer.__init__\<close>; \<open>env\<close> is the value of the environment variable
  \<open>CLAUDE_PRETTY_TOOL_INPUT_MAX\<close>, \<open>None\<close> when it is unset.
\<close>

definition Printer_init :: "runtime \<Rightarrow> pystr option \<Rightarrow> exn + printer" where
  "Printer_init rt env =
     (case py_int rt (case env of None \<Rightarrow> ustr ''800'' | Some v \<Rightarrow> v) of
        None \<Rightarrow> Inl ValueError
      | Some n \<Rightarrow> Inr \<lparr>buf = [], tool_input_max = n\<rparr>)"

definition flush :: "printer \<Rightarrow> pystr \<times> printer" where
  "flush p = (if buf p \<noteq> [] then (println (buf p), p\<lparr>buf := []\<rparr>) else ([], p))"

text \<open>
  The loop of \<open>on_text_delta\<close>, on the buffer and the text written so far.
  \<open>b.split("\n", 1)\<close> of a buffer that holds a newline is the text before the first
  newline and the text after it.
\<close>

function on_text_delta_loop :: "pystr \<Rightarrow> pystr \<Rightarrow> pystr \<times> pystr" where
  "on_text_delta_loop b out =
     (if nl \<in> set b
      then (let line = takeWhile (\<lambda>c. c \<noteq> nl) b;
                rest = tl (dropWhile (\<lambda>c. c \<noteq> nl) b)
            in on_text_delta_loop rest (out @ println line))
      else (out, b))"
  by pat_completeness auto
termination
proof (relation "measure (\<lambda>(b, out). length b)")
  show "wf (measure (\<lambda>(b, out). length b))" by simp
next
  fix b out :: pystr and line rest
  assume "nl \<in> set b" and "rest = tl (dropWhile (\<lambda>c. c \<noteq> nl) b)"
  moreover have "dropWhile (\<lambda>c. c \<noteq> nl) b \<noteq> []"
    using \<open>nl \<in> set b\<close> by simp
  moreover have "length (dropWhile (\<lambda>c. c \<noteq> nl) b) \<le> length b"
    by (rule length_dropWhile_le)
  ultimately show "((rest, out @ println line), (b, out)) \<in> measure (\<lambda>(b, out). length b)"
    by (cases "dropWhile (\<lambda>c. c \<noteq> nl) b") auto
qed

declare on_text_delta_loop.simps [simp del]

definition on_text_delta :: "printer \<Rightarrow> pystr \<Rightarrow> pystr \<times> printer" where
  "on_text_delta p t =
     (let (out, b) = on_text_delta_loop (buf p @ t) [] in (out, p\<lparr>buf := b\<rparr>))"

text \<open>
  \<open>tool_input\<close> and \<open>tool_id\<close> are what \<open>block.get\<close> returned: any decoded value,
  \<open>JNull\<close> for \<open>None\<close>. The f-string formats \<open>tool_id\<close> with \<open>str\<close>.
\<close>

definition on_tool_use :: "runtime \<Rightarrow> printer \<Rightarrow> pystr \<Rightarrow> json \<Rightarrow> json \<Rightarrow> pystr \<times> printer" where
  "on_tool_use rt p name tool_input tool_id =
     (let (out0, p1) = flush p;
          suffix = (if truthy tool_id then ustr '' id='' @ str_of rt tool_id else []);
          out1 = println ([nl] @ ustr ''>>> tool_use '' @ name @ suffix);
          out2 = (if tool_input \<noteq> JNull
                  then println (json_compact rt tool_input (tool_input_max p1)) else [])
      in (out0 @ out1 @ out2, p1))"

definition on_final_message :: "printer \<Rightarrow> pystr \<Rightarrow> pystr \<times> printer" where
  "on_final_message p text =
     (let (out0, p1) = flush p;
          out1 = (if strip text \<noteq> [] then println (rstrip_nl text) else [])
      in (out0 @ out1, p1))"

definition on_result :: "printer \<Rightarrow> bool \<Rightarrow> pystr \<Rightarrow> pystr \<times> printer" where
  "on_result p ok result_text =
     (let (out0, p1) = flush p;
          status = (if ok then ustr ''success'' else ustr ''error'');
          out1 = println ([nl] @ ustr ''=== '' @ status @ ustr '' ==='');
          out2 = (if strip result_text \<noteq> [] then println (rstrip_nl result_text) else [])
      in (out0 @ out1 @ out2, p1))"

subsection \<open>Safe access to nested fields\<close>

fun get :: "json \<Rightarrow> pystr list \<Rightarrow> json" where
  "get cur [] = cur"
| "get cur (k # ks) =
     (case cur of
        JObj d \<Rightarrow> (case map_of d k of None \<Rightarrow> JNull | Some v \<Rightarrow> get v ks)
      | _ \<Rightarrow> JNull)"

subsection \<open>The dispatcher\<close>

text \<open>
  \<open>for block in content\<close>: a list yields its elements, a \<open>str\<close> its characters
  (strings of length one), a \<open>dict\<close> its keys; any other value is not iterable.
\<close>

fun iter :: "json \<Rightarrow> exn + json list" where
  "iter (JArr xs) = Inr xs"
| "iter (JStr s) = Inr (map (\<lambda>c. JStr [c]) s)"
| "iter (JObj d) = Inr (map (\<lambda>kv. JStr (fst kv)) d)"
| "iter v = Inl TypeError"

text \<open>The body of the loop over the content blocks of an \<open>assistant\<close> record.\<close>

definition on_block :: "runtime \<Rightarrow> printer \<Rightarrow> json \<Rightarrow> pystr \<times> printer" where
  "on_block rt p block =
     (case block of
        JObj b \<Rightarrow>
          (let bt = dict_get b (ustr ''type'') in
           if bt = JStr (ustr ''tool_use'') then
             on_tool_use rt p
               (str_of rt (py_or (dict_get b (ustr ''name'')) (JStr (ustr ''unknown''))))
               (dict_get b (ustr ''input''))
               (dict_get b (ustr ''id''))
           else if bt = JStr (ustr ''text'') then
             (let text = py_or (dict_get b (ustr ''text'')) (JStr []) in
              if truthy text then on_final_message p (str_of rt text) else ([], p))
           else ([], p))
      | _ \<Rightarrow> ([], p))"

fun on_blocks :: "runtime \<Rightarrow> printer \<Rightarrow> json list \<Rightarrow> pystr \<times> printer" where
  "on_blocks rt p [] = ([], p)"
| "on_blocks rt p (block # blocks) =
     (let (out1, p1) = on_block rt p block;
          (out2, p2) = on_blocks rt p1 blocks
      in (out1 @ out2, p2))"

text \<open>
  What \<open>main\<close> does with a decoded line. \<open>obj.get\<close> and \<open>msg.get\<close> raise
  \<open>AttributeError\<close> on a value that is not a \<open>dict\<close>; \<open>self._buf += t\<close> raises
  \<open>TypeError\<close> when \<open>t\<close> is not a \<open>str\<close>. The result is the text written and
  either the exception raised or the printer afterwards.
\<close>

definition dispatch :: "runtime \<Rightarrow> printer \<Rightarrow> json \<Rightarrow> pystr \<times> (exn + printer)" where
  "dispatch rt p obj =
     (case obj of
        JObj d \<Rightarrow>
          (let t = dict_get d (ustr ''type'') in
           if t = JStr (ustr ''stream_event'') then
             (let delta_type = get obj [ustr ''event'', ustr ''delta'', ustr ''type''] in
              if delta_type = JStr (ustr ''text_delta'') then
                (let text = py_or (get obj [ustr ''event'', ustr ''delta'', ustr ''text'']) (JStr []) in
                 if truthy text then
                   (case text of
                      JStr s \<Rightarrow> (let (out, p1) = on_text_delta p s in (out, Inr p1))
                    | _ \<Rightarrow> ([], Inl TypeError))
                 else ([], Inr p))
              else ([], Inr p))
           else if t = JStr (ustr ''assistant'') then
             (let msg = py_or (dict_get d (ustr ''message'')) (JObj []) in
              case msg of
                JObj m \<Rightarrow>
                  (let content = py_or (dict_get m (ustr ''content'')) (JArr []) in
                   case iter content of
                     Inl e \<Rightarrow> ([], Inl e)
                   | Inr blocks \<Rightarrow> (let (out, p1) = on_blocks rt p blocks in (out, Inr p1)))
              | _ \<Rightarrow> ([], Inl AttributeError))
           else if t = JStr (ustr ''result'') then
             (let ok = \<not> truthy (dict_get d (ustr ''is_error''));
                  result_text = py_or (dict_get d (ustr ''result'')) (JStr []);
                  (out, p1) = on_result p ok (str_of rt result_text)
              in (out, Inr p1))
           else ([], Inr p))
      | _ \<Rightarrow> ([], Inl AttributeError))"

text \<open>One iteration of \<open>for raw in sys.stdin\<close>.\<close>

definition process_line :: "runtime \<Rightarrow> printer \<Rightarrow> pystr \<Rightarrow> pystr \<times> (exn + printer)" where
  "process_line rt p raw =
     (let line = strip raw in
      if line = [] then ([], Inr p)
      else (case json_loads rt line of
              None \<Rightarrow> (let (out0, p1) = flush p in (out0 @ println line, Inr p1))
            | Some obj \<Rightarrow> dispatch rt p obj))"

text \<open>The loop over the lines of standard input; an exception ends it.\<close>

fun process_lines :: "runtime \<Rightarrow> printer \<Rightarrow> pystr list \<Rightarrow> pystr \<times> (exn + printer)" where
  "process_lines rt p [] = ([], Inr p)"
| "process_lines rt p (raw # raws) =
     (case process_line rt p raw of
        (out1, Inl e) \<Rightarrow> (out1, Inl e)
      | (out1, Inr p1) \<Rightarrow>
          (case process_lines rt p1 raws of (out2, r) \<Rightarrow> (out1 @ out2, r)))"

text \<open>
  \<open>main\<close>, from the environment variable and the lines of standard input to the text
  written and either the uncaught exception or the exit status.
\<close>

definition main :: "runtime \<Rightarrow> pystr option \<Rightarrow> pystr list \<Rightarrow> pystr \<times> (exn + int)" where
  "main rt env stdin =
     (case Printer_init rt env of
        Inl e \<Rightarrow> ([], Inl e)
      | Inr p \<Rightarrow>
          (case process_lines rt p stdin of
             (out, Inl e) \<Rightarrow> (out, Inl e)
           | (out, Inr p1) \<Rightarrow> (out @ fst (flush p1), Inr 0)))"

section \<open>Sequences of printer operations\<close>

datatype printer_op =
    Append_text pystr
  | Flush
  | Render_tool_use pystr json json
  | Render_final_message pystr
  | Render_result bool pystr

fun apply_op :: "runtime \<Rightarrow> printer \<Rightarrow> printer_op \<Rightarrow> pystr \<times> printer" where
  "apply_op rt p (Append_text t) = on_text_delta p t"
| "apply_op rt p Flush = flush p"
| "apply_op rt p (Render_tool_use name tool_input tool_id) = on_tool_use rt p name tool_input tool_id"
| "apply_op rt p (Render_final_message text) = on_final_message p text"
| "apply_op rt p (Render_result ok result_text) = on_result p ok result_text"

fun apply_ops :: "runtime \<Rightarrow> printer \<Rightarrow> printer_op list \<Rightarrow> pystr \<times> printer" where
  "apply_ops rt p [] = ([], p)"
| "apply_ops rt p (x # xs) =
     (let (out1, p1) = apply_op rt p x;
          (out2, p2) = apply_ops rt p1 xs
      in (out1 @ out2, p2))"


section \<open>The specification's view of line splitting\<close>

text \<open>
  Splitting a text at its newline characters: the pieces between the newlines, the last
  piece being the text after the last newline (the whole text when it has none).
\<close>

fun split_nl :: "pystr \<Rightarrow> pystr list" where
  "split_nl [] = [[]]"
| "split_nl (c # cs) =
     (if c = nl then [] # split_nl cs
      else (let r = split_nl cs in (c # hd r) # tl r))"

text \<open>The complete lines of a text, and the remainder after its last newline.\<close>

definition complete_lines :: "pystr \<Rightarrow> pystr list" where
  "complete_lines s = butlast (split_nl s)"

definition remainder :: "pystr \<Rightarrow> pystr" where
  "remainder s = last (split_nl s)"

text \<open>\<open>isinstance(v, dict)\<close>\<close>

fun is_dict :: "json \<Rightarrow> bool" where
  "is_dict (JObj d) = True"
| "is_dict v = False"

section \<open>Example inputs\<close>

text \<open>The three input lines of the end-to-end example, and the values they decode to.\<close>

definition example_line1 :: pystr where
  \<open>example_line1 =
     ustr ''{"type":"stream_event","event":{"delta":{"type":"text_delta","text":"Hello"}}}''\<close>

definition example_line2 :: pystr where
  \<open>example_line2 =
     ustr ''{"type":"stream_event","event":{"delta":{"type":"text_delta","text":" world''
       @ [92, 110] @ ustr ''"}}}''\<close>

definition example_line3 :: pystr where
  \<open>example_line3 = ustr ''{"type":"result","is_error":false,"result":"done"}''\<close>

definition text_delta_record :: "json \<Rightarrow> json" where
  "text_delta_record text =
     JObj [(ustr ''type'', JStr (ustr ''stream_event'')),
           (ustr ''event'',
            JObj [(ustr ''delta'',
                   JObj [(ustr ''type'', JStr (ustr ''text_delta'')),
                         (ustr ''text'', text)])])]"

definition example_record1 :: json where
  "example_record1 = text_delta_record (JStr (ustr ''Hello''))"

definition example_record2 :: json where
  "example_record2 = text_delta_record (JStr (ustr '' world'' @ [nl]))"

definition example_record3 :: json where
  "example_record3 =
     JObj [(ustr ''type'', JStr (ustr ''result'')),
           (ustr ''is_error'', JBool False),
           (ustr ''result'', JStr (ustr ''done''))]"

text \<open>A text delta whose \<open>text\<close> is the number 5.\<close>

definition example_line_text_5 :: pystr where
  \<open>example_line_text_5 =
     ustr ''{"type":"stream_event","event":{"delta":{"type":"text_delta","text":5}}}''\<close>

text \<open>
  A runtime that answers as the Python library does on the inputs of the examples in
  this theory: \<open>json.loads\<close> on the lines above and on \<open>[1]\<close>, and its failure on
  \<open>oops\<close>; \<open>json.dumps\<close> on \<open>{}\<close> and \<open>{"a":1}\<close>; \<open>int\<close> on \<open>800\<close>, \<open>0\<close>
  and \<open>abc\<close>; \<open>str\<close> and \<open>repr\<close> on the number 5. The examples consult it on no
  other input.
\<close>

definition example_loads :: "pystr \<Rightarrow> json option" where
  "example_loads =
     map_of [(example_line1, example_record1),
             (example_line2, example_record2),
             (example_line3, example_record3),
             (example_line_text_5, text_delta_record (JInt 5)),
             (ustr ''[1]'', JArr [JInt 1])]"

definition example_dumps :: "json \<Rightarrow> pystr option" where
  \<open>example_dumps =
     map_of [(JObj [], ustr ''{}''),
             (JObj [(ustr ''a'', JInt 1)], ustr ''{"a":1}'')]\<close>

definition example_int :: "pystr \<Rightarrow> int option" where
  "example_int = map_of [(ustr ''800'', 800), (ustr ''0'', 0)]"

definition example_runtime :: runtime where
  "example_runtime =
     \<lparr>json_loads = example_loads,
      json_dumps = example_dumps,
      py_repr = (\<lambda>v. ustr ''5''),
      py_str = (\<lambda>v. ustr ''5''),
      py_int = example_int\<rparr>"

definition example_printer :: printer where
  "example_printer = \<lparr>buf = ustr ''partial'', tool_input_max = 800\<rparr>"

section \<open>Line splitting\<close>


lemma split_nl_not_Nil: "split_nl s \<noteq> []"
  by (induction s) (auto simp: Let_def)

lemma split_nl_no_newline: "nl \<notin> set s \<Longrightarrow> split_nl s = [s]"
  by (induction s) (auto simp: Let_def)

lemma split_nl_first:
  "nl \<in> set s \<Longrightarrow>
   split_nl s = takeWhile (\<lambda>c. c \<noteq> nl) s # split_nl (tl (dropWhile (\<lambda>c. c \<noteq> nl) s))"
  by (induction s) (auto simp: Let_def)

lemma last_split_nl_no_newline: "nl \<notin> set (last (split_nl s))"
proof (induction s)
  case Nil
  show ?case by simp
next
  case (Cons c cs)
  show ?case
  proof (cases "c = nl")
    case True
    with Cons show ?thesis by (simp add: split_nl_not_Nil)
  next
    case False
    with Cons show ?thesis
      by (cases "split_nl cs"; cases "tl (split_nl cs)") (auto simp: Let_def split_nl_not_Nil)
  qed
qed


lemma on_text_delta_loop_eq:
  "on_text_delta_loop b out =
     (out @ concat (map println (complete_lines b)), remainder b)"
proof (induction b out rule: on_text_delta_loop.induct)
  case (1 b out)
  show ?case
  proof (cases "nl \<in> set b")
    case True
    have "on_text_delta_loop b out =
          on_text_delta_loop (tl (dropWhile (\<lambda>c. c \<noteq> nl) b)) (out @ println (takeWhile (\<lambda>c. c \<noteq> nl) b))"
      using True by (subst on_text_delta_loop.simps) (simp add: Let_def)
    also have "\<dots> = ((out @ println (takeWhile (\<lambda>c. c \<noteq> nl) b)) @
                 concat (map println (complete_lines (tl (dropWhile (\<lambda>c. c \<noteq> nl) b)))),
               remainder (tl (dropWhile (\<lambda>c. c \<noteq> nl) b)))"
      using True by (rule "1.IH") simp_all
    finally show ?thesis
      using True by (simp add: complete_lines_def remainder_def split_nl_first split_nl_not_Nil)
  next
    case False
    then show ?thesis
      by (subst on_text_delta_loop.simps) (simp add: complete_lines_def remainder_def split_nl_no_newline)
  qed
qed

lemma on_text_delta_eq:
  "on_text_delta p t =
     (concat (map println (complete_lines (buf p @ t))), p\<lparr>buf := remainder (buf p @ t)\<rparr>)"
  by (simp add: on_text_delta_def on_text_delta_loop_eq)


lemma split_nl_pieces: "l \<in> set (split_nl s) \<Longrightarrow> nl \<notin> set l"
proof (induction s arbitrary: l)
  case Nil
  then show ?case by simp
next
  case (Cons c cs)
  obtain a as where e: "split_nl cs = a # as"
    using split_nl_not_Nil [of cs] by (cases "split_nl cs") auto
  show ?case
  proof (cases "c = nl")
    case True
    with Cons show ?thesis by auto
  next
    case False
    with Cons.prems e have "l = c # a \<or> l \<in> set as" by (simp add: Let_def)
    with Cons.IH e False show ?thesis by auto
  qed
qed

lemma split_nl_join: "concat (map println (complete_lines s)) @ remainder s = s"
proof (induction s)
  case Nil
  show ?case by (simp add: complete_lines_def remainder_def)
next
  case (Cons c cs)
  show ?case
  proof (cases "c = nl")
    case True
    with Cons show ?thesis
      by (simp add: complete_lines_def remainder_def split_nl_not_Nil println_def)
  next
    case False
    with Cons show ?thesis
      by (cases "split_nl cs"; cases "tl (split_nl cs)")
         (auto simp: complete_lines_def remainder_def split_nl_not_Nil println_def Let_def)
  qed
qed

lemma flush_buf: "buf (snd (flush p)) = []"
  by (simp add: flush_def)

lemma flush_empty: "buf p = [] \<Longrightarrow> flush p = ([], p)"
  by (simp add: flush_def)

lemma on_tool_use_buf: "buf (snd (on_tool_use rt p name tool_input tool_id)) = []"
  by (simp add: on_tool_use_def flush_def Let_def)

lemma on_final_message_buf: "buf (snd (on_final_message p text)) = []"
  by (simp add: on_final_message_def flush_def Let_def)

lemma on_result_buf: "buf (snd (on_result p ok result_text)) = []"
  by (simp add: on_result_def flush_def Let_def)

lemma on_text_delta_buf: "nl \<notin> set (buf (snd (on_text_delta p t)))"
  by (simp add: on_text_delta_eq remainder_def last_split_nl_no_newline)

lemma apply_op_buf: "nl \<notin> set (buf (snd (apply_op rt p x)))"
  by (cases x)
     (simp_all add: on_text_delta_buf flush_buf on_tool_use_buf on_final_message_buf on_result_buf)

lemma apply_ops_buf: "nl \<notin> set (buf p) \<Longrightarrow> nl \<notin> set (buf (snd (apply_ops rt p xs)))"
proof (induction xs arbitrary: p)
  case Nil
  then show ?case by simp
next
  case (Cons x xs)
  have "nl \<notin> set (buf (snd (apply_ops rt (snd (apply_op rt p x)) xs)))"
    by (rule Cons.IH) (rule apply_op_buf)
  then show ?case by (simp add: split_beta)
qed



text \<open>
  C7. After every operation of the Printer, from any state, the Text Buffer holds no
  newline character; hence it holds none after any sequence of operations on a
  Printer whose buffer held none at the start, such as a new one. Nothing is held
  back and nothing is lost: \<open>on_text_delta\<close> writes, in that very call, every
  complete line of the buffer followed by the fragment, each with its newline, and
  keeps only the text after the last newline, so that the text written followed by
  the new buffer is the old buffer followed by the fragment; every other operation
  first writes the pending text as a line and leaves the buffer empty.
\<close>

theorem buffer_never_holds_newline:
  "nl \<notin> set (buf (snd (apply_op rt p x)))
   \<and> (buf p = [] \<longrightarrow> nl \<notin> set (buf (snd (apply_ops rt p xs))))
   \<and> fst (apply_op rt p (Append_text t)) @ buf (snd (apply_op rt p (Append_text t))) = buf p @ t
   \<and> apply_op rt p (Append_text t) =
       (concat (map (\<lambda>l. l @ [nl]) (complete_lines (buf p @ t))),
        p\<lparr>buf := remainder (buf p @ t)\<rparr>)
   \<and> ((\<forall>u. x \<noteq> Append_text u) \<longrightarrow>
        buf (snd (apply_op rt p x)) = []
        \<and> (\<exists>rest. fst (apply_op rt p x) = (if buf p = [] then [] else buf p @ [nl]) @ rest))"
proof -
  have pl: "println = (\<lambda>l. l @ [nl])"
    by (rule ext) (simp add: println_def)
  have e: "apply_op rt p (Append_text t) =
       (concat (map (\<lambda>l. l @ [nl]) (complete_lines (buf p @ t))),
        p\<lparr>buf := remainder (buf p @ t)\<rparr>)"
    using on_text_delta_eq [of p t] by (simp add: pl)
  have j: "fst (apply_op rt p (Append_text t)) @ buf (snd (apply_op rt p (Append_text t))) = buf p @ t"
    using split_nl_join [of "buf p @ t"] by (simp add: on_text_delta_eq)
  have r: "(\<forall>u. x \<noteq> Append_text u) \<longrightarrow>
        buf (snd (apply_op rt p x)) = []
        \<and> (\<exists>rest. fst (apply_op rt p x) = (if buf p = [] then [] else buf p @ [nl]) @ rest)"
    by (cases x)
       (simp_all add: flush_def on_tool_use_def on_final_message_def on_result_def
          println_def Let_def)
  show ?thesis
    using apply_op_buf [of rt p x] apply_ops_buf [of p rt xs] e j r by simp
qed

theorem buffer_never_holds_newline_witness:
  "buf \<lparr>buf = [], tool_input_max = 800\<rparr> = []
   \<and> apply_ops example_runtime \<lparr>buf = [], tool_input_max = 800\<rparr>
        [Append_text (ustr ''a'' @ [nl] @ ustr ''b''), Render_result True (ustr ''ok''),
         Append_text (ustr ''c'')] =
       (ustr ''a'' @ [nl] @ ustr ''b'' @ [nl] @ [nl] @ ustr ''=== success ==='' @ [nl]
          @ ustr ''ok'' @ [nl],
        \<lparr>buf = ustr ''c'', tool_input_max = 800\<rparr>)
   \<and> nl \<notin> set (buf (snd (apply_ops example_runtime \<lparr>buf = [], tool_input_max = 800\<rparr>
        [Append_text (ustr ''a'' @ [nl] @ ustr ''b''), Render_result True (ustr ''ok''),
         Append_text (ustr ''c'')])))
   \<and> apply_op example_runtime \<lparr>buf = ustr ''x'', tool_input_max = 800\<rparr>
        (Append_text (ustr ''y'' @ [nl] @ [nl] @ ustr ''z'')) =
       (ustr ''xy'' @ [nl] @ [nl], \<lparr>buf = ustr ''z'', tool_input_max = 800\<rparr>)
   \<and> apply_op example_runtime \<lparr>buf = ustr ''x'', tool_input_max = 800\<rparr> Flush =
       (ustr ''x'' @ [nl], \<lparr>buf = [], tool_input_max = 800\<rparr>)"
proof -
  have s: "apply_ops example_runtime \<lparr>buf = [], tool_input_max = 800\<rparr>
        [Append_text (ustr ''a'' @ [nl] @ ustr ''b''), Render_result True (ustr ''ok''),
         Append_text (ustr ''c'')] =
       (ustr ''a'' @ [nl] @ ustr ''b'' @ [nl] @ [nl] @ ustr ''=== success ==='' @ [nl]
          @ ustr ''ok'' @ [nl],
        \<lparr>buf = ustr ''c'', tool_input_max = 800\<rparr>)"
    by (simp add: on_text_delta_eq on_result_def flush_def complete_lines_def remainder_def
          println_def strip_def rstrip_nl_def isspace_def ustr_def Let_def)
  have f: "apply_op example_runtime \<lparr>buf = ustr ''x'', tool_input_max = 800\<rparr> Flush =
       (ustr ''x'' @ [nl], \<lparr>buf = [], tool_input_max = 800\<rparr>)"
    by (simp add: flush_def println_def ustr_def)
  show ?thesis
    using s f
      buffer_never_holds_newline [of example_runtime "\<lparr>buf = [], tool_input_max = 800\<rparr>"
        Flush "[Append_text (ustr ''a'' @ [nl] @ ustr ''b''), Render_result True (ustr ''ok''),
         Append_text (ustr ''c'')]" "[]"]
      buffer_never_holds_newline [of example_runtime "\<lparr>buf = ustr ''x'', tool_input_max = 800\<rparr>"
        Flush "[]" "ustr ''y'' @ [nl] @ [nl] @ ustr ''z''"]
    by (simp add: complete_lines_def remainder_def ustr_def Let_def
             del: apply_ops.simps apply_op.simps)
qed

text \<open>
  C9. \<open>flush\<close> on an empty Text Buffer writes nothing and leaves the Printer as it
  is; and from any state, two successive calls of \<open>flush\<close> write the same text and
  end in the same state as one call.
\<close>

theorem flush_idempotent:
  "(buf p = [] \<longrightarrow> flush p = ([], p))
   \<and> (case flush p of (out1, p1) \<Rightarrow> (case flush p1 of (out2, p2) \<Rightarrow> (out1 @ out2, p2))) = flush p"
  by (simp add: flush_def)

theorem flush_idempotent_witness:
  "buf \<lparr>buf = [], tool_input_max = 800\<rparr> = []
   \<and> flush \<lparr>buf = [], tool_input_max = 800\<rparr> = ([], \<lparr>buf = [], tool_input_max = 800\<rparr>)
   \<and> (case flush example_printer of (out1, p1) \<Rightarrow> (case flush p1 of (out2, p2) \<Rightarrow> (out1 @ out2, p2)))
       = (ustr ''partial'' @ [nl], \<lparr>buf = [], tool_input_max = 800\<rparr>)"
  using flush_idempotent [of "\<lparr>buf = [], tool_input_max = 800\<rparr>"] flush_idempotent [of example_printer]
  by (simp add: flush_def example_printer_def println_def ustr_def)

section \<open>Rendering\<close>

lemma strip_empty_iff: "strip s = [] \<longleftrightarrow> (\<forall>c \<in> set s. isspace c)"
proof
  assume "strip s = []"
  then have a: "\<forall>x \<in> set (dropWhile isspace s). isspace x"
    by (simp add: strip_def)
  have "dropWhile isspace s = []"
  proof (rule ccontr)
    assume n: "dropWhile isspace s \<noteq> []"
    then have "\<not> isspace (hd (dropWhile isspace s))" by (rule hd_dropWhile)
    moreover have "hd (dropWhile isspace s) \<in> set (dropWhile isspace s)" using n by simp
    ultimately show False using a by blast
  qed
  then show "\<forall>c \<in> set s. isspace c" by simp
next
  assume "\<forall>c \<in> set s. isspace c"
  then have d: "dropWhile isspace s = []" by simp
  show "strip s = []" by (simp only: strip_def d dropWhile.simps rev.simps)
qed

lemma rstrip_nl_decomp: "\<exists>k. s = rstrip_nl s @ replicate k nl"
proof (induction s rule: rev_induct)
  case Nil
  show ?case by (simp add: rstrip_nl_def)
next
  case (snoc c cs)
  show ?case
  proof (cases "c = nl")
    case True
    from snoc obtain k where e: "cs = rstrip_nl cs @ replicate k nl" ..
    have r: "rstrip_nl (cs @ [c]) = rstrip_nl cs"
      using True by (simp add: rstrip_nl_def)
    have "cs @ [c] = (rstrip_nl cs @ replicate k nl) @ [nl]"
      using e True by simp
    also have "\<dots> = rstrip_nl cs @ replicate (Suc k) nl"
      by (simp add: replicate_append_same)
    finally have "cs @ [c] = rstrip_nl (cs @ [c]) @ replicate (Suc k) nl"
      using r by simp
    then show ?thesis ..
  next
    case False
    then have "cs @ [c] = rstrip_nl (cs @ [c]) @ replicate 0 nl"
      by (simp add: rstrip_nl_def)
    then show ?thesis ..
  qed
qed

lemma rstrip_nl_last: "rstrip_nl s \<noteq> [] \<Longrightarrow> last (rstrip_nl s) \<noteq> nl"
proof -
  assume a: "rstrip_nl s \<noteq> []"
  then have n: "dropWhile (\<lambda>c. c = nl) (rev s) \<noteq> []" by (simp add: rstrip_nl_def)
  then have "hd (dropWhile (\<lambda>c. c = nl) (rev s)) \<noteq> nl" by (rule hd_dropWhile)
  then show ?thesis using n by (simp add: rstrip_nl_def last_rev)
qed

lemma truncate_short: "int (length s) \<le> n \<Longrightarrow> truncate_str s n = s"
  by (simp add: truncate_str_def)

lemma truncate_long:
  "1 \<le> n \<Longrightarrow> n < int (length s) \<Longrightarrow> truncate_str s n = take (nat (n - 1)) s @ [ellipsis]"
  by (simp add: truncate_str_def slice_to_def)

lemma length_truncate_long:
  "1 \<le> n \<Longrightarrow> n < int (length s) \<Longrightarrow> int (length (truncate_str s n)) = n"
  by (simp add: truncate_long min_def)

text \<open>
  C3, as amended. For a limit of at least 1: when the serialization of the tool input
  (the result of \<open>json.dumps\<close>, or \<open>repr\<close> when that raises) is no longer than the
  limit, \<open>on_tool_use\<close> writes it unchanged as the payload line; when it is longer, the
  payload line is the first \<open>limit - 1\<close> characters of the serialization followed by
  the marker U+2026, and its length is exactly the limit.
\<close>

theorem tool_input_truncated_to_limit:
  assumes "tool_input \<noteq> JNull"
    and "1 \<le> tool_input_max p"
    and "s = (case json_dumps rt tool_input of Some x \<Rightarrow> x | None \<Rightarrow> py_repr rt tool_input)"
    and "payload = (if int (length s) \<le> tool_input_max p then s
                    else take (nat (tool_input_max p - 1)) s @ [ellipsis])"
  shows "on_tool_use rt p name tool_input tool_id =
           (fst (flush p)
              @ println ([nl] @ ustr ''>>> tool_use '' @ name
                         @ (if truthy tool_id then ustr '' id='' @ str_of rt tool_id else []))
              @ println payload,
            snd (flush p))
         \<and> (tool_input_max p < int (length s) \<longrightarrow> int (length payload) = tool_input_max p)"
proof -
  have t: "json_compact rt tool_input (tool_input_max p) = payload"
    using assms(2-4) by (simp add: json_compact_def truncate_short truncate_long)
  have f: "tool_input_max (snd (flush p)) = tool_input_max p"
    by (simp add: flush_def)
  have "tool_input_max p < int (length s) \<Longrightarrow> int (length payload) = tool_input_max p"
    using assms(2,4) by (simp add: min_def)
  then show ?thesis
    using assms(1) t f by (simp add: on_tool_use_def split_beta Let_def)
qed

theorem tool_input_truncated_to_limit_witness:
  \<open>JObj [(ustr ''a'', JInt 1)] \<noteq> JNull
   \<and> (1::int) \<le> tool_input_max \<lparr>buf = [], tool_input_max = 5\<rparr>
   \<and> json_dumps example_runtime (JObj [(ustr ''a'', JInt 1)]) = Some (ustr ''{"a":1}'')
   \<and> on_tool_use example_runtime \<lparr>buf = [], tool_input_max = 5\<rparr> (ustr ''Bash'')
        (JObj [(ustr ''a'', JInt 1)]) JNull =
       ([nl] @ ustr ''>>> tool_use Bash'' @ [nl] @ ustr ''{"a"'' @ [ellipsis] @ [nl],
        \<lparr>buf = [], tool_input_max = 5\<rparr>)
   \<and> int (length (ustr ''{"a"'' @ [ellipsis])) = 5\<close>
proof -
  have d: \<open>json_dumps example_runtime (JObj [(ustr ''a'', JInt 1)]) = Some (ustr ''{"a":1}'')\<close>
    by (simp add: example_runtime_def example_dumps_def)
  show ?thesis
    using d tool_input_truncated_to_limit [of "JObj [(ustr ''a'', JInt 1)]"
      "\<lparr>buf = [], tool_input_max = 5\<rparr>" _ example_runtime _ "ustr ''Bash''" JNull,
      OF _ _ refl refl]
    by (simp add: flush_def println_def ustr_def)
qed

text \<open>
  The claim C3 as written fails for a limit below 1: with the limit 0 and the tool
  input \<open>{}\<close>, whose serialization \<open>{}\<close> has length 2 and exceeds the limit, the
  payload line written is \<open>{\<close> followed by the marker, of length 2 and not 0.
\<close>

theorem tool_input_limit_zero_counterexample:
  \<open>json_dumps example_runtime (JObj []) = Some (ustr ''{}'')
   \<and> (0::int) < int (length (ustr ''{}''))
   \<and> on_tool_use example_runtime \<lparr>buf = [], tool_input_max = 0\<rparr> (ustr ''Bash'') (JObj []) JNull =
       ([nl] @ ustr ''>>> tool_use Bash'' @ [nl] @ ustr ''{'' @ [ellipsis] @ [nl],
        \<lparr>buf = [], tool_input_max = 0\<rparr>)
   \<and> int (length (ustr ''{'' @ [ellipsis])) \<noteq> 0\<close>
  by (simp add: example_runtime_def example_dumps_def on_tool_use_def flush_def println_def
        json_compact_def truncate_str_def slice_to_def ustr_def)

text \<open>
  C10. The header line written by \<open>on_tool_use\<close> is \<open>>>> tool_use <name>\<close> followed by
  \<open> id=<id>\<close> exactly when the identifier is truthy; the two headers differ, and both
  \<open>None\<close> and the empty string give the header without the suffix.
\<close>

theorem tool_use_id_suffix:
  "fst (on_tool_use rt p name JNull tool_id) =
     fst (flush p) @ [nl] @ ustr ''>>> tool_use '' @ name
       @ (if truthy tool_id then ustr '' id='' @ str_of rt tool_id else []) @ [nl]
   \<and> [nl] @ ustr ''>>> tool_use '' @ name @ ustr '' id='' @ str_of rt tool_id @ [nl]
       \<noteq> [nl] @ ustr ''>>> tool_use '' @ name @ [nl]
   \<and> fst (on_tool_use rt p name tool_input JNull) =
       fst (flush p) @ [nl] @ ustr ''>>> tool_use '' @ name @ [nl]
         @ (if tool_input \<noteq> JNull then println (json_compact rt tool_input (tool_input_max p)) else [])
   \<and> fst (on_tool_use rt p name tool_input (JStr [])) =
       fst (flush p) @ [nl] @ ustr ''>>> tool_use '' @ name @ [nl]
         @ (if tool_input \<noteq> JNull then println (json_compact rt tool_input (tool_input_max p)) else [])
   \<and> fst (on_tool_use rt p name tool_input tool_id) =
       fst (flush p) @ [nl] @ ustr ''>>> tool_use '' @ name
         @ (if truthy tool_id then ustr '' id='' @ str_of rt tool_id else []) @ [nl]
         @ (if tool_input \<noteq> JNull then println (json_compact rt tool_input (tool_input_max p)) else [])"
proof -
  have "ustr '' id='' @ str_of rt tool_id @ [nl] \<noteq> [nl]"
    by (simp add: ustr_def)
  then show ?thesis
    by (simp add: on_tool_use_def flush_def println_def split_beta Let_def)
qed

theorem tool_use_id_suffix_witness:
  "fst (on_tool_use example_runtime example_printer (ustr ''Bash'') JNull (JStr (ustr ''t1''))) =
     ustr ''partial'' @ [nl] @ [nl] @ ustr ''>>> tool_use Bash id=t1'' @ [nl]
   \<and> fst (on_tool_use example_runtime example_printer (ustr ''Bash'') JNull JNull) =
     ustr ''partial'' @ [nl] @ [nl] @ ustr ''>>> tool_use Bash'' @ [nl]
   \<and> fst (on_tool_use example_runtime example_printer (ustr ''Bash'') JNull (JStr [])) =
     ustr ''partial'' @ [nl] @ [nl] @ ustr ''>>> tool_use Bash'' @ [nl]"
  using tool_use_id_suffix [of example_runtime example_printer "ustr ''Bash''" "JStr (ustr ''t1'')" JNull]
  by (simp add: flush_def example_printer_def println_def str_of_def ustr_def)

section \<open>The dispatcher\<close>

lemma flush_tool_input_max: "tool_input_max (snd (flush p)) = tool_input_max p"
  by (simp add: flush_def)

lemma on_result_eq:
  "on_result p ok text =
     (fst (flush p) @ [nl]
        @ (if ok then ustr ''=== success ==='' else ustr ''=== error ==='') @ [nl]
        @ (if \<forall>c \<in> set text. isspace c then [] else rstrip_nl text @ [nl]),
      snd (flush p))"
  using strip_empty_iff [of "text"]
  by (simp add: on_result_def split_beta Let_def println_def ustr_def)

lemma rstrip_nl_unique:
  assumes "s = body @ replicate k nl" and "body = [] \<or> last body \<noteq> nl"
  shows "rstrip_nl s = body"
proof -
  have "dropWhile (\<lambda>c. c = nl) (rev body) = rev body"
  proof (cases "body = []")
    case True
    then show ?thesis by simp
  next
    case False
    with assms(2) have "hd (rev body) \<noteq> nl" by (simp add: hd_rev)
    with False show ?thesis by (cases "rev body") simp_all
  qed
  then show ?thesis
    using assms(1) by (simp add: rstrip_nl_def dropWhile_append)
qed

lemma flush_eq:
  "flush p = (if buf p = [] then [] else buf p @ [nl], p\<lparr>buf := []\<rparr>)"
  by (cases p) (simp add: flush_def println_def)

text \<open>
  C5. For a record whose \<open>type\<close> is \<open>result\<close>, the success flag is the negation of
  the truth value of \<open>is_error\<close> (so a missing or false \<open>is_error\<close> is a success and a
  true one is not), and the result text is the \<open>result\<close> field, the empty string
  when the field is missing or falsy. The dispatcher writes the pending text as a
  line (flush), an empty line, the header \<open>=== success ===\<close> or \<open>=== error ===\<close>,
  and then the body: the result text without its trailing newlines, that is, the
  part \<open>body\<close> of the text that does not end in a newline and is followed in the text
  by newlines only. When the result text is all whitespace no body line is written.
  The buffer is empty afterwards.
\<close>

theorem result_record_rendering:
  assumes "map_of d (ustr ''type'') = Some (JStr (ustr ''result''))"
    and "ok = (case map_of d (ustr ''is_error'') of None \<Rightarrow> True | Some v \<Rightarrow> \<not> truthy v)"
    and "text = (case map_of d (ustr ''result'') of
                   None \<Rightarrow> []
                 | Some (JStr s) \<Rightarrow> s
                 | Some v \<Rightarrow> if truthy v then py_str rt v else [])"
    and "text = body @ replicate k nl"
    and "body = [] \<or> last body \<noteq> nl"
  shows "dispatch rt p (JObj d) =
           ((if buf p = [] then [] else buf p @ [nl]) @ [nl]
              @ (if ok then ustr ''=== success ==='' else ustr ''=== error ==='') @ [nl]
              @ (if \<forall>c \<in> set text. isspace c then [] else body @ [nl]),
            Inr (p\<lparr>buf := []\<rparr>))
         \<and> (map_of d (ustr ''is_error'') = None \<longrightarrow> ok)
         \<and> (map_of d (ustr ''is_error'') = Some (JBool False) \<longrightarrow> ok)
         \<and> (map_of d (ustr ''is_error'') = Some (JBool True) \<longrightarrow> \<not> ok)
         \<and> (map_of d (ustr ''result'') = None \<longrightarrow> text = [])
         \<and> (\<forall>s. map_of d (ustr ''result'') = Some (JStr s) \<longrightarrow> text = s)"
proof -
  have ne: "ustr ''result'' \<noteq> ustr ''stream_event''" "ustr ''result'' \<noteq> ustr ''assistant''"
    by (simp_all add: ustr_def)
  have t: "dict_get d (ustr ''type'') = JStr (ustr ''result'')"
    using assms(1) by (simp add: dict_get_def)
  have o: "ok = (\<not> truthy (dict_get d (ustr ''is_error'')))"
    using assms(2) by (simp add: dict_get_def split: option.splits)
  have x: "text = str_of rt (py_or (dict_get d (ustr ''result'')) (JStr []))"
    using assms(3)
    by (simp add: dict_get_def py_or_def str_of_def split: option.splits json.splits)
  have b: "rstrip_nl text = body"
    using assms(4,5) by (rule rstrip_nl_unique)
  have "dispatch rt p (JObj d) = (case on_result p ok text of (out, p1) \<Rightarrow> (out, Inr p1))"
    using t o x ne by (simp add: dispatch_def Let_def)
  then have "dispatch rt p (JObj d) =
           ((if buf p = [] then [] else buf p @ [nl]) @ [nl]
              @ (if ok then ustr ''=== success ==='' else ustr ''=== error ==='') @ [nl]
              @ (if \<forall>c \<in> set text. isspace c then [] else body @ [nl]),
            Inr (p\<lparr>buf := []\<rparr>))"
    by (simp add: on_result_eq flush_eq b)
  moreover have "map_of d (ustr ''is_error'') = None \<longrightarrow> ok"
    and "map_of d (ustr ''is_error'') = Some (JBool False) \<longrightarrow> ok"
    and "map_of d (ustr ''is_error'') = Some (JBool True) \<longrightarrow> \<not> ok"
    using assms(2) by simp_all
  moreover have "map_of d (ustr ''result'') = None \<longrightarrow> text = []"
    and "\<forall>s. map_of d (ustr ''result'') = Some (JStr s) \<longrightarrow> text = s"
    using assms(3) by simp_all
  ultimately show ?thesis by blast
qed

theorem result_record_rendering_witness:
  "dispatch example_runtime example_printer
       (JObj [(ustr ''type'', JStr (ustr ''result'')), (ustr ''is_error'', JBool False),
              (ustr ''result'', JStr (ustr ''done'' @ [nl, nl]))]) =
     (ustr ''partial'' @ [nl] @ [nl] @ ustr ''=== success ==='' @ [nl] @ ustr ''done'' @ [nl],
      Inr \<lparr>buf = [], tool_input_max = 800\<rparr>)
   \<and> dispatch example_runtime example_printer
       (JObj [(ustr ''type'', JStr (ustr ''result'')), (ustr ''is_error'', JBool True)]) =
     (ustr ''partial'' @ [nl] @ [nl] @ ustr ''=== error ==='' @ [nl],
      Inr \<lparr>buf = [], tool_input_max = 800\<rparr>)
   \<and> dispatch example_runtime \<lparr>buf = [], tool_input_max = 800\<rparr>
       (JObj [(ustr ''type'', JStr (ustr ''result'')), (ustr ''result'', JStr [32, nl])]) =
     ([nl] @ ustr ''=== success ==='' @ [nl], Inr \<lparr>buf = [], tool_input_max = 800\<rparr>)"
  using
    result_record_rendering [of
      "[(ustr ''type'', JStr (ustr ''result'')), (ustr ''is_error'', JBool False),
        (ustr ''result'', JStr (ustr ''done'' @ [nl, nl]))]" _ _ example_runtime
      "ustr ''done''" "Suc (Suc 0)" example_printer, OF _ refl refl]
    result_record_rendering [of
      "[(ustr ''type'', JStr (ustr ''result'')), (ustr ''is_error'', JBool True)]" _ _
      example_runtime "[]" 0 example_printer, OF _ refl refl]
    result_record_rendering [of
      "[(ustr ''type'', JStr (ustr ''result'')), (ustr ''result'', JStr [32, nl])]" _ _
      example_runtime "[32]" "Suc 0" "\<lparr>buf = [], tool_input_max = 800\<rparr>", OF _ refl refl]
  by (simp add: example_printer_def isspace_def ustr_def)

text \<open>
  C4, as amended. For every input line that is not empty after stripping and that
  \<open>json.loads\<close> rejects, the dispatcher writes the pending text (flush) and then the
  line with its leading and trailing whitespace removed, followed by a newline; no
  exception is raised, and the remaining lines are processed from the flushed Printer.
\<close>

theorem undecodable_line_passthrough:
  assumes "strip raw \<noteq> []" and "json_loads rt (strip raw) = None"
  shows "process_line rt p raw = (fst (flush p) @ strip raw @ [nl], Inr (snd (flush p)))
         \<and> process_lines rt p (raw # raws) =
             (fst (flush p) @ strip raw @ [nl] @ fst (process_lines rt (snd (flush p)) raws),
              snd (process_lines rt (snd (flush p)) raws))"
proof -
  have "process_line rt p raw = (fst (flush p) @ strip raw @ [nl], Inr (snd (flush p)))"
    using assms by (simp add: process_line_def Let_def split_beta println_def)
  then show ?thesis by (simp add: split_beta)
qed

lemma strip_oops: "strip (ustr ''  oops'' @ [nl]) = ustr ''oops''"
  by (simp add: strip_def isspace_def ustr_def)

lemma example_loads_oops: "json_loads example_runtime (ustr ''oops'') = None"
  by (simp add: example_runtime_def example_loads_def example_line1_def example_line2_def
        example_line3_def example_line_text_5_def ustr_def)

theorem undecodable_line_passthrough_witness:
  "strip (ustr ''  oops'' @ [nl]) \<noteq> []
   \<and> json_loads example_runtime (strip (ustr ''  oops'' @ [nl])) = None
   \<and> process_lines example_runtime example_printer [ustr ''  oops'' @ [nl]] =
       (ustr ''partial'' @ [nl] @ ustr ''oops'' @ [nl], Inr \<lparr>buf = [], tool_input_max = 800\<rparr>)"
proof -
  have a: "strip (ustr ''  oops'' @ [nl]) \<noteq> []"
    by (simp add: strip_oops) (simp add: ustr_def)
  have b: "json_loads example_runtime (strip (ustr ''  oops'' @ [nl])) = None"
    by (simp add: strip_oops example_loads_oops)
  show ?thesis
    using a b undecodable_line_passthrough [OF a b, of example_printer "[]"]
    by (simp add: strip_oops flush_def example_printer_def println_def del: process_lines.simps)
       (simp add: ustr_def)
qed

text \<open>
  The claim C4 as written fails on a line with surrounding whitespace: the line
  \<open>  oops\<close> (two leading spaces) is not JSON, and what is written for it is \<open>oops\<close>
  and a newline, not the raw line.
\<close>

theorem undecodable_line_not_verbatim_counterexample:
  "json_loads example_runtime (strip (ustr ''  oops'' @ [nl])) = None
   \<and> fst (process_line example_runtime \<lparr>buf = [], tool_input_max = 800\<rparr> (ustr ''  oops'' @ [nl]))
       = ustr ''oops'' @ [nl]
   \<and> ustr ''oops'' @ [nl] \<noteq> ustr ''  oops'' @ [nl]
   \<and> ustr ''oops'' @ [nl] \<noteq> ustr ''  oops'' @ [nl] @ [nl]"
proof -
  have "ustr ''oops'' \<noteq> []" by (simp add: ustr_def)
  then have "fst (process_line example_runtime \<lparr>buf = [], tool_input_max = 800\<rparr>
                 (ustr ''  oops'' @ [nl])) = ustr ''oops'' @ [nl]"
    by (simp add: process_line_def strip_oops example_loads_oops flush_def println_def)
  moreover have "ustr ''oops'' @ [nl] \<noteq> ustr ''  oops'' @ [nl]"
    and "ustr ''oops'' @ [nl] \<noteq> ustr ''  oops'' @ [nl] @ [nl]"
    by (simp_all add: ustr_def)
  ultimately show ?thesis by (simp add: strip_oops example_loads_oops)
qed

lemma strip_example_lines:
  "strip (example_line1 @ [nl]) = example_line1"
  "strip (example_line2 @ [nl]) = example_line2"
  "strip (example_line3 @ [nl]) = example_line3"
  by (simp_all add: strip_def isspace_def example_line1_def example_line2_def
        example_line3_def ustr_def)

lemma example_lines_not_empty:
  "example_line1 \<noteq> []" "example_line2 \<noteq> []" "example_line3 \<noteq> []"
  by (simp_all add: example_line1_def example_line2_def example_line3_def ustr_def)

lemma dispatch_text_delta_record:
  "dispatch rt p (text_delta_record (JStr (c # cs))) =
     (fst (on_text_delta p (c # cs)), Inr (snd (on_text_delta p (c # cs))))"
  by (simp add: dispatch_def text_delta_record_def dict_get_def py_or_def split_beta ustr_def)

lemma dispatch_example_record3:
  "buf p = [] \<Longrightarrow>
   dispatch rt p example_record3 =
     ([nl] @ ustr ''=== success ==='' @ [nl] @ ustr ''done'' @ [nl], Inr p)"
  by (simp add: dispatch_def example_record3_def dict_get_def py_or_def str_of_def
        on_result_def flush_def println_def strip_def rstrip_nl_def isspace_def ustr_def)

text \<open>
  C6. When the Printer can be created and \<open>json.loads\<close> decodes the three lines of
  the example to the three records they denote, \<open>main\<close> on these lines writes
  \<open>Hello world\<close>, an empty line, \<open>=== success ===\<close> and \<open>done\<close>, each followed by a
  newline, and returns the exit status 0.
\<close>

theorem end_to_end_example:
  assumes "Printer_init rt env = Inr p0"
    and "json_loads rt example_line1 = Some example_record1"
    and "json_loads rt example_line2 = Some example_record2"
    and "json_loads rt example_line3 = Some example_record3"
  shows "main rt env [example_line1 @ [nl], example_line2 @ [nl], example_line3 @ [nl]] =
           (ustr ''Hello world'' @ [nl] @ [nl] @ ustr ''=== success ==='' @ [nl]
              @ ustr ''done'' @ [nl],
            Inr 0)"
proof -
  have b0: "buf p0 = []"
    using assms(1) by (auto simp: Printer_init_def split: option.splits)
  have hello: "ustr ''Hello'' = 72 # ustr ''ello''" and world: "ustr '' world'' @ [nl] = 32 # ustr ''world'' @ [nl]"
    by (simp_all add: ustr_def)
  have s1: "process_line rt p0 (example_line1 @ [nl]) = ([], Inr (p0\<lparr>buf := ustr ''Hello''\<rparr>))"
    using assms(2) b0
    by (simp add: process_line_def strip_example_lines example_lines_not_empty
          example_record1_def hello dispatch_text_delta_record on_text_delta_eq
          complete_lines_def remainder_def)
       (simp add: ustr_def Let_def)
  have s2: "process_line rt (p0\<lparr>buf := ustr ''Hello''\<rparr>) (example_line2 @ [nl]) =
              (ustr ''Hello world'' @ [nl], Inr p0)"
    using assms(3) b0
    by (simp add: process_line_def strip_example_lines example_lines_not_empty
          example_record2_def world dispatch_text_delta_record on_text_delta_eq
          complete_lines_def remainder_def)
       (simp add: ustr_def Let_def println_def)
  have s3: "process_line rt p0 (example_line3 @ [nl]) =
              ([nl] @ ustr ''=== success ==='' @ [nl] @ ustr ''done'' @ [nl], Inr p0)"
    using assms(4) b0
    by (simp add: process_line_def strip_example_lines example_lines_not_empty
          dispatch_example_record3)
  show ?thesis
    using assms(1) b0 by (simp add: main_def s1 s2 s3 flush_def)
qed

theorem end_to_end_example_witness:
  "Printer_init example_runtime None = Inr \<lparr>buf = [], tool_input_max = 800\<rparr>
   \<and> json_loads example_runtime example_line1 = Some example_record1
   \<and> json_loads example_runtime example_line2 = Some example_record2
   \<and> json_loads example_runtime example_line3 = Some example_record3
   \<and> main example_runtime None [example_line1 @ [nl], example_line2 @ [nl], example_line3 @ [nl]] =
       (ustr ''Hello world'' @ [nl] @ [nl] @ ustr ''=== success ==='' @ [nl] @ ustr ''done'' @ [nl],
        Inr 0)"
proof -
  have i: "Printer_init example_runtime None = Inr \<lparr>buf = [], tool_input_max = 800\<rparr>"
    by (simp add: Printer_init_def example_runtime_def example_int_def)
  have l1: "json_loads example_runtime example_line1 = Some example_record1"
    by (simp add: example_runtime_def example_loads_def)
  have l2: "json_loads example_runtime example_line2 = Some example_record2"
    by (simp add: example_runtime_def example_loads_def example_line1_def example_line2_def ustr_def)
  have l3: "json_loads example_runtime example_line3 = Some example_record3"
    by (simp add: example_runtime_def example_loads_def example_line1_def example_line2_def
          example_line3_def ustr_def)
  show ?thesis
    using i l1 l2 l3 end_to_end_example [OF i l1 l2 l3] by simp
qed

section \<open>Exceptions\<close>

lemma dispatch_non_dict: "\<not> is_dict v \<Longrightarrow> dispatch rt p v = ([], Inl AttributeError)"
  by (cases v) (simp_all add: dispatch_def)

lemma dispatch_text_not_str:
  "truthy v \<Longrightarrow> \<forall>s. v \<noteq> JStr s \<Longrightarrow>
   dispatch rt p (text_delta_record v) = ([], Inl TypeError)"
  by (cases v)
     (simp_all add: dispatch_def text_delta_record_def dict_get_def py_or_def ustr_def)

lemma Printer_init_unset:
  "py_int rt (ustr ''800'') = Some 800 \<Longrightarrow>
   Printer_init rt None = Inr \<lparr>buf = [], tool_input_max = 800\<rparr>"
  by (simp add: Printer_init_def)

lemma main_unparsable_override:
  "py_int rt v = None \<Longrightarrow> main rt (Some v) stdin = ([], Inl ValueError)"
  by (simp add: main_def Printer_init_def)

lemma iter_no_ValueError: "iter v \<noteq> Inl ValueError"
  by (cases v) simp_all

lemma dispatch_no_ValueError: "snd (dispatch rt p obj) \<noteq> Inl ValueError"
proof (cases obj)
  case (JObj d)
  show ?thesis
    using iter_no_ValueError
    by (auto simp: JObj dispatch_def Let_def split_beta
             split: json.splits sum.splits if_splits)
qed (simp_all add: dispatch_def)

lemma process_line_no_ValueError: "snd (process_line rt p raw) \<noteq> Inl ValueError"
  using dispatch_no_ValueError
  by (auto simp: process_line_def Let_def split_beta split: option.splits)

lemma process_lines_no_ValueError: "snd (process_lines rt p raws) \<noteq> Inl ValueError"
proof (induction raws arbitrary: p)
  case Nil
  show ?case by simp
next
  case (Cons raw raws)
  show ?case
  proof (cases "process_line rt p raw")
    case (Pair out1 r)
    show ?thesis
    proof (cases r)
      case (Inl e)
      with Pair process_line_no_ValueError [of rt p raw] show ?thesis by auto
    next
      case (Inr p1)
      with Pair Cons.IH [of p1] show ?thesis by (simp add: split_beta)
    qed
  qed
qed

lemma main_ValueError_only_at_startup:
  "snd (main rt env stdin) = Inl ValueError \<longleftrightarrow> Printer_init rt env = Inl ValueError"
proof (cases "Printer_init rt env")
  case (Inl e)
  then show ?thesis
    by (cases e) (simp_all add: main_def Printer_init_def split: option.splits)
next
  case (Inr p)
  obtain out r where e: "process_lines rt p stdin = (out, r)"
    by (cases "process_lines rt p stdin")
  have "r \<noteq> Inl ValueError"
    using process_lines_no_ValueError [of rt p stdin] e by simp
  then show ?thesis
    using Inr e by (cases r) (simp_all add: main_def)
qed

lemma strip_list_1: "strip (ustr ''[1]'' @ [nl]) = ustr ''[1]''"
  by (simp add: strip_def isspace_def ustr_def)

lemma strip_text_5: "strip (example_line_text_5 @ [nl]) = example_line_text_5"
  by (simp add: strip_def isspace_def example_line_text_5_def ustr_def)

lemma example_loads_text_5:
  "json_loads example_runtime example_line_text_5 = Some (text_delta_record (JInt 5))"
  by (simp add: example_runtime_def example_loads_def example_line1_def example_line2_def
        example_line3_def example_line_text_5_def ustr_def)

lemma example_loads_list_1: "json_loads example_runtime (ustr ''[1]'') = Some (JArr [JInt 1])"
  by (simp add: example_runtime_def example_loads_def example_line1_def example_line2_def
        example_line3_def example_line_text_5_def ustr_def)

text \<open>
  C2 fails on the code. A line that decodes to a value that is not a \<open>dict\<close> makes
  \<open>main\<close> raise \<open>AttributeError\<close> (the call \<open>obj.get\<close>): nothing is written for it and
  the lines after it are not processed. A text delta whose \<open>text\<close> is truthy and not
  a \<open>str\<close> makes it raise \<open>TypeError\<close> (the statement \<open>self._buf += t\<close>).
\<close>

theorem malformed_record_raises:
  "(strip raw \<noteq> [] \<and> json_loads rt (strip raw) = Some v \<and> \<not> is_dict v
      \<longrightarrow> process_lines rt p (raw # raws) = ([], Inl AttributeError))
   \<and> (strip raw \<noteq> [] \<and> json_loads rt (strip raw) = Some (text_delta_record v)
        \<and> truthy v \<and> (\<forall>s. v \<noteq> JStr s)
      \<longrightarrow> process_lines rt p (raw # raws) = ([], Inl TypeError))"
  by (simp add: process_line_def dispatch_non_dict dispatch_text_not_str)

theorem malformed_record_raises_witness:
  "strip (ustr ''[1]'' @ [nl]) \<noteq> []
   \<and> json_loads example_runtime (strip (ustr ''[1]'' @ [nl])) = Some (JArr [JInt 1])
   \<and> \<not> is_dict (JArr [JInt 1])
   \<and> process_lines example_runtime example_printer [ustr ''[1]'' @ [nl], example_line3 @ [nl]]
       = ([], Inl AttributeError)
   \<and> strip (example_line_text_5 @ [nl]) \<noteq> []
   \<and> json_loads example_runtime (strip (example_line_text_5 @ [nl])) = Some (text_delta_record (JInt 5))
   \<and> process_lines example_runtime example_printer [example_line_text_5 @ [nl], example_line3 @ [nl]]
       = ([], Inl TypeError)"
proof -
  have a: "strip (ustr ''[1]'' @ [nl]) \<noteq> []"
    by (simp add: strip_list_1) (simp add: ustr_def)
  have b: "json_loads example_runtime (strip (ustr ''[1]'' @ [nl])) = Some (JArr [JInt 1])"
    by (simp add: strip_list_1 example_loads_list_1)
  have c: "strip (example_line_text_5 @ [nl]) \<noteq> []"
    by (simp add: strip_text_5) (simp add: example_line_text_5_def ustr_def)
  have d: "json_loads example_runtime (strip (example_line_text_5 @ [nl]))
             = Some (text_delta_record (JInt 5))"
    by (simp only: strip_text_5 example_loads_text_5)
  show ?thesis
    using a b c d
      malformed_record_raises [of "ustr ''[1]'' @ [nl]" example_runtime "JArr [JInt 1]"
        example_printer "[example_line3 @ [nl]]"]
      malformed_record_raises [of "example_line_text_5 @ [nl]" example_runtime "JInt 5"
        example_printer "[example_line3 @ [nl]]"]
    by (simp del: process_lines.simps)
qed

text \<open>
  C8 fails on the code in its last part. With the override unset the limit is 800 and
  the Printer is created, yet on the input line \<open>[1]\<close> \<open>main\<close> ends with an uncaught
  \<open>AttributeError\<close>, which is not the configuration fault: the configuration fault is
  not the only failure of the process.
\<close>

theorem failure_other_than_configuration:
  assumes "py_int rt (ustr ''800'') = Some 800"
    and "json_loads rt (ustr ''[1]'') = Some (JArr [JInt 1])"
  shows "Printer_init rt None = Inr \<lparr>buf = [], tool_input_max = 800\<rparr>
         \<and> main rt None [ustr ''[1]'' @ [nl]] = ([], Inl AttributeError)
         \<and> AttributeError \<noteq> ValueError"
proof -
  have "ustr ''[1]'' \<noteq> []" by (simp add: ustr_def)
  then have "process_line rt \<lparr>buf = [], tool_input_max = 800\<rparr> (ustr ''[1]'' @ [nl])
         = ([], Inl AttributeError)"
    using assms(2) by (simp add: process_line_def strip_list_1 dispatch_non_dict)
  then show ?thesis
    using assms(1) by (simp add: main_def Printer_init_unset)
qed

theorem failure_other_than_configuration_witness:
  "py_int example_runtime (ustr ''800'') = Some 800
   \<and> json_loads example_runtime (ustr ''[1]'') = Some (JArr [JInt 1])
   \<and> main example_runtime None [ustr ''[1]'' @ [nl]] = ([], Inl AttributeError)"
proof -
  have a: "py_int example_runtime (ustr ''800'') = Some 800"
    by (simp add: example_runtime_def example_int_def)
  show ?thesis
    using a example_loads_list_1 failure_other_than_configuration [OF a example_loads_list_1]
    by simp
qed

end
